theory Spec2Isabelle
  imports Main
begin

section \<open>Strings and store keys\<close>

text \<open>
  Python strings are modelled as \<open>string\<close> over the ASCII range. \<open>str.strip()\<close> removes the
  leading and trailing characters for which \<open>str.isspace()\<close> holds (in ASCII: tab, line feed,
  vertical tab, form feed, carriage return, the four separators 0x1C..0x1F and the space);
  \<open>str.lower()\<close> maps \<open>A..Z\<close> to \<open>a..z\<close> and leaves every other ASCII character alone.
\<close>

definition isspace :: "char \<Rightarrow> bool" where
  "isspace c = ((9 \<le> (of_char c :: nat) \<and> (of_char c :: nat) \<le> 13)
               \<or> (28 \<le> (of_char c :: nat) \<and> (of_char c :: nat) \<le> 32))"

definition strip :: "string \<Rightarrow> string" where
  "strip s = rev (dropWhile isspace (rev (dropWhile isspace s)))"

definition lower_char :: "char \<Rightarrow> char" where
  "lower_char c = (if 65 \<le> (of_char c :: nat) \<and> (of_char c :: nat) \<le> 90
                   then char_of ((of_char c :: nat) + 32) else c)"

definition lower :: "string \<Rightarrow> string" where
  "lower s = map lower_char s"

definition k_user :: "string \<Rightarrow> string" where
  "k_user email = ''user:'' @ lower (strip email)"

definition k_code :: "string \<Rightarrow> string" where
  "k_code code = ''code:'' @ strip code"

definition k_history :: "string \<Rightarrow> string" where
  "k_history email = ''history:'' @ lower (strip email)"

definition k_cache :: "string \<Rightarrow> string" where
  "k_cache hash_key = ''cache:'' @ hash_key"

section \<open>Dates and times\<close>

text \<open>
  The parts of Python's \<open>datetime\<close> that the program uses. A date is held as its proleptic
  Gregorian ordinal (\<open>date.toordinal()\<close>: day 1 is 0001-01-01, a Monday), from which the
  library recovers the year; the largest ordinal is that of 9999-12-31. \<open>tz\<close> is the
  \<open>tzinfo\<close> attribute: none (a naive value), the program's constant \<open>TZ\<close>
  (\<open>ZoneInfo("America/New_York")\<close>), or a fixed offset in microseconds, which is what
  parsing an ISO string with an offset gives.
\<close>

datatype py_error = OverflowError | TypeError | ValueError

datatype tzinfo = NoTz | TZ | FixedOffset int

record datetime =
  ordinal :: int
  hour :: int
  minute :: int
  second :: int
  microsecond :: int
  fold :: int
  tz :: tzinfo

definition MAXORDINAL :: int where
  "MAXORDINAL = 3652059"

definition valid_datetime :: "datetime \<Rightarrow> bool" where
  "valid_datetime dt =
     (1 \<le> ordinal dt \<and> ordinal dt \<le> MAXORDINAL
      \<and> 0 \<le> hour dt \<and> hour dt < 24
      \<and> 0 \<le> minute dt \<and> minute dt < 60
      \<and> 0 \<le> second dt \<and> second dt < 60
      \<and> 0 \<le> microsecond dt \<and> microsecond dt < 1000000
      \<and> 0 \<le> fold dt \<and> fold dt \<le> 1)"

definition is_leap :: "int \<Rightarrow> bool" where
  "is_leap year = (year mod 4 = 0 \<and> (year mod 100 \<noteq> 0 \<or> year mod 400 = 0))"

definition days_before_year :: "int \<Rightarrow> int" where
  "days_before_year year =
     (let y = year - 1 in y * 365 + y div 4 - y div 100 + y div 400)"

definition days_before_month :: "int \<Rightarrow> int \<Rightarrow> int" where
  "days_before_month year month =
     [0, 31, 59, 90, 120, 151, 181, 212, 243, 273, 304, 334] ! nat (month - 1)
       + (if month > 2 \<and> is_leap year then 1 else 0)"

definition ymd2ord :: "int \<Rightarrow> int \<Rightarrow> int \<Rightarrow> int" where
  "ymd2ord year month day = days_before_year year + days_before_month year month + day"

text \<open>The year of an ordinal, as \<open>_ord2ymd\<close> computes it from the 400, 100, 4 and 1 year cycles.\<close>

definition ord2year :: "int \<Rightarrow> int" where
  "ord2year n0 =
     (let n = n0 - 1;
          n400 = n div 146097; n = n mod 146097;
          year = n400 * 400 + 1;
          n100 = n div 36524; n = n mod 36524;
          n4 = n div 1461; n = n mod 1461;
          n1 = n div 365;
          year = year + n100 * 100 + n4 * 4 + n1
      in if n1 = 4 \<or> n100 = 4 then year - 1 else year)"

definition isoweekday :: "datetime \<Rightarrow> int" where
  "isoweekday dt = (ordinal dt + 6) mod 7 + 1"

definition isoweek1monday :: "int \<Rightarrow> int" where
  "isoweek1monday year =
     (let firstday = ymd2ord year 1 1;
          firstweekday = (firstday + 6) mod 7;
          week1monday = firstday - firstweekday
      in if firstweekday > 3 then week1monday + 7 else week1monday)"

definition isocalendar :: "datetime \<Rightarrow> int \<times> int \<times> int" where
  "isocalendar dt =
     (let year = ord2year (ordinal dt);
          week1monday = isoweek1monday year;
          today = ordinal dt;
          week = (today - week1monday) div 7;
          day = (today - week1monday) mod 7
      in if week < 0 then
           (let year = year - 1;
                week1monday = isoweek1monday year;
                week = (today - week1monday) div 7;
                day = (today - week1monday) mod 7
            in (year, week + 1, day + 1))
         else if week \<ge> 52 \<and> today \<ge> isoweek1monday (year + 1) then
           (year + 1, 1, day + 1)
         else (year, week + 1, day + 1))"

text \<open>\<open>str(n)\<close> for an integer and the format \<open>{w:02d}\<close>.\<close>

definition digit_char :: "int \<Rightarrow> char" where
  "digit_char d = ''0123456789'' ! nat d"

function str_nat :: "int \<Rightarrow> string" where
  "str_nat n = (if n < 10 then [digit_char n]
                else str_nat (n div 10) @ [digit_char (n mod 10)])"
  by pat_completeness auto
termination
  by (relation "measure nat") auto

declare str_nat.simps [simp del]

definition str_int :: "int \<Rightarrow> string" where
  "str_int i = (if i < 0 then CHR ''-'' # str_nat (- i) else str_nat i)"

definition fmt_02d :: "int \<Rightarrow> string" where
  "fmt_02d w = (let s = str_int w in if length s < 2 then CHR ''0'' # s else s)"

definition iso_week_id :: "datetime \<Rightarrow> string" where
  "iso_week_id dt = (case isocalendar dt of (y, w, _) \<Rightarrow> str_int y @ ''W'' @ fmt_02d w)"

text \<open>
  \<open>dt + timedelta(days=n)\<close>: the wall-clock fields stay, the result keeps \<open>tzinfo\<close> and
  has \<open>fold = 0\<close>, and a date outside the range of the library raises \<open>OverflowError\<close>.
\<close>

definition add_days :: "datetime \<Rightarrow> int \<Rightarrow> py_error + datetime" where
  "add_days dt n =
     (let days = ordinal dt + n
      in if 0 < days \<and> days \<le> MAXORDINAL
         then Inr (dt\<lparr>ordinal := days, fold := 0\<rparr>)
         else Inl OverflowError)"

definition week_expiry_sunday_235959 :: "datetime \<Rightarrow> py_error + datetime" where
  "week_expiry_sunday_235959 dt =
     (let days_to_sun = 7 - isoweekday dt
      in case add_days dt days_to_sun of
           Inl e \<Rightarrow> Inl e
         | Inr d \<Rightarrow> Inr (d\<lparr>hour := 23, minute := 59, second := 59, microsecond := 0\<rparr>))"

text \<open>
  What the program takes from outside the repository: the UTC offset (in microseconds) that
  the zone \<open>TZ\<close> gives a wall-clock value, \<open>datetime.isoformat\<close>,
  \<open>datetime.fromisoformat\<close> (\<open>None\<close> when it raises), and the SHA-256 hex digest of
  the JSON text of a dictionary of strings (\<open>json.dumps\<close> with sorted keys).
\<close>

record pylib =
  zone_utcoffset :: "datetime \<Rightarrow> int"
  isoformat :: "datetime \<Rightarrow> string"
  fromisoformat :: "string \<Rightarrow> datetime option"
  json_sha256 :: "(string \<times> string) list \<Rightarrow> string"

definition to_iso :: "pylib \<Rightarrow> datetime \<Rightarrow> string" where
  "to_iso lib dt = isoformat lib dt"

definition parse_iso :: "pylib \<Rightarrow> string \<Rightarrow> datetime option" where
  "parse_iso lib s = fromisoformat lib s"

definition utcoffset :: "pylib \<Rightarrow> datetime \<Rightarrow> int option" where
  "utcoffset lib dt =
     (case tz dt of NoTz \<Rightarrow> None
      | TZ \<Rightarrow> Some (zone_utcoffset lib dt)
      | FixedOffset off \<Rightarrow> Some off)"

text \<open>
  \<open>a < b\<close> on datetimes. With the same \<open>tzinfo\<close>, or equal offsets, the wall-clock fields
  are compared in order; a naive value against an aware one raises \<open>TypeError\<close>; otherwise
  the two instants are compared.
\<close>

fun tuple_lt :: "int list \<Rightarrow> int list \<Rightarrow> bool" where
  "tuple_lt (x # xs) (y # ys) = (x < y \<or> (x = y \<and> tuple_lt xs ys))"
| "tuple_lt [] (y # ys) = True"
| "tuple_lt xs [] = False"

definition wall_fields :: "datetime \<Rightarrow> int list" where
  "wall_fields dt = [ordinal dt, hour dt, minute dt, second dt, microsecond dt]"

definition utc_microseconds :: "datetime \<Rightarrow> int \<Rightarrow> int" where
  "utc_microseconds dt off =
     ((ordinal dt * 86400 + hour dt * 3600 + minute dt * 60 + second dt) * 1000000
        + microsecond dt) - off"

definition dt_lt :: "pylib \<Rightarrow> datetime \<Rightarrow> datetime \<Rightarrow> py_error + bool" where
  "dt_lt lib a b =
     (if tz a = tz b \<or> utcoffset lib a = utcoffset lib b
      then Inr (tuple_lt (wall_fields a) (wall_fields b))
      else (case (utcoffset lib a, utcoffset lib b) of
              (Some oa, Some ob) \<Rightarrow> Inr (utc_microseconds a oa < utc_microseconds b ob)
            | _ \<Rightarrow> Inl TypeError))"

section \<open>Data models and the key-value store\<close>

text \<open>
  The dictionaries the program stores always carry every field of the dataclass they are
  read back into, so a stored dictionary is a record and is truthy whenever it is present.
  \<open>credits\<close> is a Python integer (unbounded).
\<close>

record code_record =
  c_code :: string
  c_email :: string
  c_tier :: string
  c_week_id :: string
  c_expires_at :: string
  c_created_at :: string

record user_record =
  u_email :: string
  u_credits :: int
  u_tier :: string
  u_created_at :: string
  u_last_login :: string

text \<open>One saved run of the agent (the \<open>run_record\<close> dictionary of \<open>render_agent\<close>).\<close>

record 'b run_record =
  ran_at :: string
  r_company :: string
  r_persona :: string
  r_model :: string
  credits_remaining_after :: int
  brief :: 'b

text \<open>
  The Replit store maps key strings to JSON values. The four key prefixes \<open>user:\<close>,
  \<open>code:\<close>, \<open>history:\<close> and \<open>cache:\<close> keep the four kinds of entry apart, so the store
  is one map per kind, each keyed by the full key string. \<open>'b\<close> is the type of a brief (the
  JSON object the search API returns).
\<close>

record 'b db =
  users :: "string \<rightharpoonup> user_record"
  codes :: "string \<rightharpoonup> code_record"
  history :: "string \<rightharpoonup> 'b run_record list"
  cache :: "string \<rightharpoonup> 'b"

definition DEFAULT_FREE_CREDITS :: int where
  "DEFAULT_FREE_CREDITS = 2"

definition db_set_user :: "string \<Rightarrow> user_record \<Rightarrow> 'b db \<Rightarrow> 'b db" where
  "db_set_user key rec d = d\<lparr>users := (users d)(key \<mapsto> rec)\<rparr>"

definition db_set_code :: "string \<Rightarrow> code_record \<Rightarrow> 'b db \<Rightarrow> 'b db" where
  "db_set_code key rec d = d\<lparr>codes := (codes d)(key \<mapsto> rec)\<rparr>"

definition db_set_history :: "string \<Rightarrow> 'b run_record list \<Rightarrow> 'b db \<Rightarrow> 'b db" where
  "db_set_history key hist d = d\<lparr>history := (history d)(key \<mapsto> hist)\<rparr>"

definition db_set_cache :: "string \<Rightarrow> 'b \<Rightarrow> 'b db \<Rightarrow> 'b db" where
  "db_set_cache key b d = d\<lparr>cache := (cache d)(key \<mapsto> b)\<rparr>"

section \<open>Users, credits and history\<close>

text \<open>
  Every \<open>now_et()\<close> of the source is a reading of the clock; the readings are parameters
  (\<open>t\<close>, \<open>t1\<close>, \<open>t2\<close>), one for each call, in the order of the calls.
  \<open>ensure_user\<close> ends by reading the record back and building the dataclass from it;
  a missing record there would raise \<open>TypeError\<close>.
\<close>

definition ensure_user ::
  "pylib \<Rightarrow> datetime \<Rightarrow> string \<Rightarrow> string \<Rightarrow> 'b db \<Rightarrow> (py_error + user_record) \<times> 'b db" where
  "ensure_user lib t email tier d =
     (let key = k_user email;
          now = to_iso lib t;
          d = (case users d key of
                 None \<Rightarrow>
                   db_set_user key
                     \<lparr>u_email = lower email, u_credits = DEFAULT_FREE_CREDITS, u_tier = tier,
                      u_created_at = now, u_last_login = now\<rparr> d
               | Some rec \<Rightarrow>
                   (let rec = rec\<lparr>u_last_login := now\<rparr>;
                        rec = (if tier \<noteq> [] \<and> u_tier rec = [] then rec\<lparr>u_tier := tier\<rparr>
                               else rec)
                    in db_set_user key rec d))
      in ((case users d key of None \<Rightarrow> Inl TypeError | Some rec \<Rightarrow> Inr rec), d))"

definition update_user_credits ::
  "pylib \<Rightarrow> datetime \<Rightarrow> datetime \<Rightarrow> string \<Rightarrow> int \<Rightarrow> 'b db \<Rightarrow> 'b db" where
  "update_user_credits lib t1 t2 email new_credits d =
     (let key = k_user email;
          rec = (case users d key of
                   None \<Rightarrow> \<lparr>u_email = lower email, u_credits = new_credits,
                             u_tier = ''general'', u_created_at = to_iso lib t1,
                             u_last_login = to_iso lib t2\<rparr>
                 | Some r \<Rightarrow> r);
          rec = rec\<lparr>u_credits := new_credits\<rparr>
      in db_set_user key rec d)"

definition decrement_credit ::
  "pylib \<Rightarrow> datetime \<Rightarrow> datetime \<Rightarrow> string \<Rightarrow> 'b db \<Rightarrow> int \<times> 'b db" where
  "decrement_credit lib t1 t2 email d =
     (let key = k_user email;
          rec = (case users d key of
                   None \<Rightarrow> \<lparr>u_email = lower email, u_credits = DEFAULT_FREE_CREDITS,
                             u_tier = ''general'', u_created_at = to_iso lib t1,
                             u_last_login = to_iso lib t2\<rparr>
                 | Some r \<Rightarrow> r);
          rec = rec\<lparr>u_credits := max 0 (u_credits rec - 1)\<rparr>
      in (u_credits rec, db_set_user key rec d))"

definition get_history :: "string \<Rightarrow> 'b db \<Rightarrow> 'b run_record list" where
  "get_history email d = (case history d (k_history email) of None \<Rightarrow> [] | Some h \<Rightarrow> h)"

definition save_history :: "string \<Rightarrow> 'b run_record \<Rightarrow> 'b db \<Rightarrow> 'b db" where
  "save_history email payload d =
     (let key = k_history email;
          hist = (case history d key of None \<Rightarrow> [] | Some h \<Rightarrow> h);
          hist = payload # hist;
          hist = take 25 hist
      in db_set_history key hist d)"

section \<open>Code issuance and validation\<close>

text \<open>\<open>token\<close> is the value of \<open>secrets.token_hex(3).upper()\<close>.\<close>

definition create_code_for_email ::
  "pylib \<Rightarrow> datetime \<Rightarrow> string \<Rightarrow> string \<Rightarrow> string \<Rightarrow> 'b db
     \<Rightarrow> (py_error + code_record) \<times> 'b db" where
  "create_code_for_email lib dt token email tier d =
     (let week_id = iso_week_id dt
      in case week_expiry_sunday_235959 dt of
           Inl e \<Rightarrow> (Inl e, d)
         | Inr expires \<Rightarrow>
             (let prefix = (if tier = ''recruiter'' then ''REC''
                            else if tier = ''vip'' then ''VIP'' else ''GEN'');
                  code = prefix @ ''-'' @ week_id @ ''-'' @ token;
                  rec = \<lparr>c_code = code, c_email = strip (lower email), c_tier = tier,
                         c_week_id = week_id, c_expires_at = to_iso lib expires,
                         c_created_at = to_iso lib dt\<rparr>
              in (Inr rec, db_set_code (k_code code) rec d)))"

text \<open>The dictionary \<open>SEED_CODES\<close>, in its insertion order: code and tier.\<close>

definition SEED_CODES :: "(string \<times> string) list" where
  "SEED_CODES =
     [(''REC-2026W02-7H3Q9A'', ''recruiter''),
      (''REC-2026W02-N4D2KP'', ''recruiter''),
      (''REC-2026W02-V8M1TZ'', ''recruiter''),
      (''GEN-2026W02-2J9L4C'', ''general''),
      (''GEN-2026W02-Q6R7W3'', ''general''),
      (''GEN-2026W02-X1P8FS'', ''general''),
      (''VIP-2026W02-5K2Y9N'', ''vip''),
      (''VIP-2026W02-H7T1RD'', ''vip''),
      (''VIP-2026W02-M3C6UZ'', ''vip'')]"

text \<open>The \<open>for\<close> loop of \<open>seed_demo_codes_if_missing\<close> over the remaining items.\<close>

fun seed_loop ::
  "string \<Rightarrow> string \<Rightarrow> string \<Rightarrow> (string \<times> string) list \<Rightarrow> nat \<Rightarrow> 'b db \<Rightarrow> nat \<times> 'b db" where
  "seed_loop week_id expires_iso created_iso [] created d = (created, d)"
| "seed_loop week_id expires_iso created_iso ((code, tier) # items) created d =
     (let key = k_code code
      in if codes d key \<noteq> None
         then seed_loop week_id expires_iso created_iso items created d
         else seed_loop week_id expires_iso created_iso items (created + 1)
                (db_set_code key
                   \<lparr>c_code = code, c_email = [], c_tier = tier, c_week_id = week_id,
                    c_expires_at = expires_iso, c_created_at = created_iso\<rparr> d))"

definition seed_demo_codes_if_missing ::
  "pylib \<Rightarrow> datetime \<Rightarrow> 'b db \<Rightarrow> (py_error + nat \<times> string \<times> string) \<times> 'b db" where
  "seed_demo_codes_if_missing lib dt d =
     (let week_id = iso_week_id dt
      in case week_expiry_sunday_235959 dt of
           Inl e \<Rightarrow> (Inl e, d)
         | Inr expires \<Rightarrow>
             (case seed_loop week_id (to_iso lib expires) (to_iso lib dt) SEED_CODES 0 d of
                (created, d') \<Rightarrow> (Inr (created, week_id, to_iso lib expires), d')))"

definition bind_unbound_code_to_email ::
  "string \<Rightarrow> string \<Rightarrow> 'b db \<Rightarrow> (bool \<times> string) \<times> 'b db" where
  "bind_unbound_code_to_email code email d =
     (let key = k_code code
      in case codes d key of
           None \<Rightarrow> ((False, ''Code not found.''), d)
         | Some rec \<Rightarrow>
             if c_email rec \<noteq> [] then ((False, ''Code already bound to an email.''), d)
             else ((True, ''Bound successfully.''),
                   db_set_code key (rec\<lparr>c_email := strip (lower email)\<rparr>) d))"

text \<open>
  \<open>validate_login_code\<close> returns \<open>(False, message)\<close>, here \<open>Inl message\<close>, or
  \<open>(True, rec)\<close>, here \<open>Inr rec\<close>. The \<open>try\<close> block around the expiry check turns a
  failed parse and a failed comparison into the same message.
\<close>

definition validate_login_code ::
  "pylib \<Rightarrow> datetime \<Rightarrow> string \<Rightarrow> string \<Rightarrow> 'b db \<Rightarrow> (string + code_record) \<times> 'b db" where
  "validate_login_code lib dt email code d =
     (let email = strip (lower email);
          code = strip code
      in case codes d (k_code code) of
           None \<Rightarrow> (Inl ''Invalid code.'', d)
         | Some rec \<Rightarrow>
             (let current_week = iso_week_id dt
              in if c_week_id rec \<noteq> current_week
                 then (Inl ''Code expired (week changed). Request a new code.'', d)
                 else
                   (case (case parse_iso lib (c_expires_at rec) of
                            None \<Rightarrow> Inl ValueError
                          | Some expires \<Rightarrow> dt_lt lib expires dt) of
                      Inl e \<Rightarrow>
                        (Inl ''Code expiry is malformed. Ask the owner for a new code.'', d)
                    | Inr True \<Rightarrow>
                        (Inl ''Code expired (time window ended). Request a new code.'', d)
                    | Inr False \<Rightarrow>
                        if c_email rec \<noteq> [] then
                          (if c_email rec \<noteq> email
                           then (Inl ''Code does not match this email. Use the email you requested access with.'', d)
                           else (Inr rec, d))
                        else
                          (let rec = rec\<lparr>c_email := email\<rparr>
                           in (Inr rec, db_set_code (k_code code) rec d)))))"

section \<open>Webhook\<close>

text \<open>
  \<open>requests_post\<close> is the outcome of \<open>requests.post(url, json=payload, timeout=12)\<close>:
  the response, or the text \<open>str(e)\<close> of the exception it raises.
\<close>

record response =
  status_code :: int
  text_of :: string

definition post_webhook ::
  "(string \<Rightarrow> 'p \<Rightarrow> string + response) \<Rightarrow> string \<Rightarrow> 'p \<Rightarrow> int \<times> string" where
  "post_webhook requests_post url payload =
     (case requests_post url payload of
        Inr r \<Rightarrow> (status_code r, text_of r)
      | Inl e \<Rightarrow> (0, e))"

section \<open>The agent page\<close>

text \<open>
  One rendering of \<open>render_agent\<close> for the logged-in session (\<open>email\<close> and \<open>tier\<close> of
  the session state). The form fields and the button are inputs; the clock readings are
  listed in the order of the calls of \<open>now_et()\<close>. \<open>api\<close> is what
  \<open>perplexity_brief\<close> does when it is called: it returns a brief, raises an exception, or
  stops the script (\<open>must_env\<close> calls \<open>st.stop()\<close>, whose exception is not an
  \<open>Exception\<close> and passes the handler). A cached brief is a non-empty dictionary and so
  truthy. The contact form of the branch without credits does not touch the store and is
  left out.
\<close>

record agent_form =
  f_company :: string
  f_website :: string
  f_persona :: string
  f_value_prop :: string
  f_initiative :: string
  f_region :: string
  f_competitor :: string
  f_model :: string
  f_run :: bool

record agent_clock =
  t_ensure :: datetime
  t_week :: datetime
  t_dec1 :: datetime
  t_dec2 :: datetime
  t_ran :: datetime
  t_refund1 :: datetime
  t_refund2 :: datetime

datatype 'b api_outcome = ApiReturns 'b | ApiRaises string | ApiStops

datatype 'b agent_result =
    Crashed py_error
  | NoCredits
  | NotSubmitted
  | MissingFields
  | AgentFailed string
  | ScriptStopped
  | Done 'b

definition cache_key_of :: "pylib \<Rightarrow> datetime \<Rightarrow> agent_form \<Rightarrow> string" where
  "cache_key_of lib t form =
     k_cache (json_sha256 lib
       [(''company'', strip (f_company form)),
        (''website'', strip (f_website form)),
        (''persona'', strip (f_persona form)),
        (''value_prop'', strip (f_value_prop form)),
        (''initiative'', strip (f_initiative form)),
        (''region'', strip (f_region form)),
        (''competitor'', strip (f_competitor form)),
        (''model'', f_model form),
        (''week'', iso_week_id t)])"

definition finish_run ::
  "pylib \<Rightarrow> agent_clock \<Rightarrow> string \<Rightarrow> agent_form \<Rightarrow> int \<Rightarrow> 'b \<Rightarrow> 'b db
     \<Rightarrow> 'b agent_result \<times> 'b db" where
  "finish_run lib clk email form remaining_after b d =
     (let run_record = \<lparr>ran_at = to_iso lib (t_ran clk), r_company = strip (f_company form),
                         r_persona = strip (f_persona form), r_model = f_model form,
                         credits_remaining_after = remaining_after, brief = b\<rparr>
      in (Done b, save_history email run_record d))"

definition render_agent ::
  "pylib \<Rightarrow> agent_clock \<Rightarrow> 'b api_outcome \<Rightarrow> string \<Rightarrow> string \<Rightarrow> agent_form \<Rightarrow> 'b db
     \<Rightarrow> 'b agent_result \<times> 'b db" where
  "render_agent lib clk api email tier form d =
     (case ensure_user lib (t_ensure clk) email tier d of
        (Inl e, d) \<Rightarrow> (Crashed e, d)
      | (Inr user, d) \<Rightarrow>
          if u_credits user \<le> 0 then (NoCredits, d)
          else if \<not> f_run form then (NotSubmitted, d)
          else if list_ex (\<lambda>x. strip x = [])
                    [f_company form, f_website form, f_persona form, f_value_prop form]
          then (MissingFields, d)
          else
            (let cache_key = cache_key_of lib (t_week clk) form
             in case decrement_credit lib (t_dec1 clk) (t_dec2 clk) email d of
                  (remaining_after, d) \<Rightarrow>
                    (case cache d cache_key of
                       Some cached \<Rightarrow> finish_run lib clk email form remaining_after cached d
                     | None \<Rightarrow>
                         (case api of
                            ApiReturns b \<Rightarrow>
                              finish_run lib clk email form remaining_after b
                                (db_set_cache cache_key b d)
                          | ApiRaises msg \<Rightarrow>
                              (AgentFailed msg,
                               update_user_credits lib (t_refund1 clk) (t_refund2 clk) email
                                 (remaining_after + 1) d)
                          | ApiStops \<Rightarrow> (ScriptStopped, d)))))"



section \<open>Notions used in the statements\<close>






text \<open>
  The records that seeding writes, by key: for each item the unbound record of that code,
  with the week id, expiry and creation time of the run.
\<close>

definition seed_records ::
  "string \<Rightarrow> string \<Rightarrow> string \<Rightarrow> (string \<times> string) list \<Rightarrow> (string \<rightharpoonup> code_record)" where
  "seed_records week_id expires_iso created_iso items =
     map_of (map (\<lambda>(code, tier).
                   (k_code code,
                    \<lparr>c_code = code, c_email = [], c_tier = tier, c_week_id = week_id,
                     c_expires_at = expires_iso, c_created_at = created_iso\<rparr>)) items)"

definition absent_codes :: "'b db \<Rightarrow> (string \<times> string) list \<Rightarrow> (string \<times> string) list" where
  "absent_codes d items = filter (\<lambda>(code, tier). codes d (k_code code) = None) items"

section \<open>Example values\<close>

text \<open>
  Concrete values on which the theorems below are instantiated: Wednesday 2026-01-07,
  10:30:00.25 in the zone (ordinal 739623), the Sunday that ends its week (ordinal 739627), a
  library instance for that week (the winter offset of five hours, a formatter of the
  wall-clock fields, a parser that knows the formatted Sunday), and a small store.
\<close>

definition example_now :: datetime where
  "example_now = \<lparr>ordinal = 739623, hour = 10, minute = 30, second = 0,
                   microsecond = 250000, fold = 0, tz = TZ\<rparr>"

definition example_sunday :: datetime where
  "example_sunday = \<lparr>ordinal = 739627, hour = 23, minute = 59, second = 59,
                      microsecond = 0, fold = 0, tz = TZ\<rparr>"

definition example_isoformat :: "datetime \<Rightarrow> string" where
  "example_isoformat dt =
     str_int (ordinal dt) @ ''T'' @ fmt_02d (hour dt) @ '':'' @ fmt_02d (minute dt)
       @ '':'' @ fmt_02d (second dt) @ ''.'' @ str_int (microsecond dt)"

definition example_lib :: pylib where
  "example_lib =
     \<lparr>zone_utcoffset = (\<lambda>dt. - 18000000000),
      isoformat = example_isoformat,
      fromisoformat = (\<lambda>s. if s = ''739627T23:59:59.0''
                            then Some (example_sunday\<lparr>tz := FixedOffset (- 18000000000)\<rparr>)
                            else None),
      json_sha256 = (\<lambda>kvs. concat (map snd kvs))\<rparr>"

definition empty_db :: "string db" where
  "empty_db = \<lparr>users = Map.empty, codes = Map.empty, history = Map.empty,
                cache = Map.empty\<rparr>"

definition example_user :: user_record where
  "example_user = \<lparr>u_email = ''ann@example.com'', u_credits = 1, u_tier = ''vip'',
                    u_created_at = ''739620T09:00:00.0'', u_last_login = ''739620T09:00:00.0''\<rparr>"

definition example_db :: "string db" where
  "example_db = db_set_user (k_user ''Ann@Example.com '') example_user empty_db"

definition example_form :: agent_form where
  "example_form = \<lparr>f_company = ''BioMarin'', f_website = ''https://www.biomarin.com'',
                    f_persona = ''CIO'', f_value_prop = ''Route planning'', f_initiative = [],
                    f_region = [], f_competitor = [], f_model = ''sonar'', f_run = True\<rparr>"

definition example_clock :: agent_clock where
  "example_clock = \<lparr>t_ensure = example_now, t_week = example_now, t_dec1 = example_now,
                     t_dec2 = example_now, t_ran = example_now, t_refund1 = example_now,
                     t_refund2 = example_now\<rparr>"

definition example_later :: datetime where
  "example_later = \<lparr>ordinal = 739628, hour = 0, minute = 0, second = 1,
                     microsecond = 0, fold = 0, tz = TZ\<rparr>"

definition example_code :: code_record where
  "example_code = \<lparr>c_code = ''VIP-2026W02-5K2Y9N'', c_email = [], c_tier = ''vip'',
                    c_week_id = ''2026W02'', c_expires_at = ''739627T23:59:59.0'',
                    c_created_at = ''739621T08:00:00.0''\<rparr>"

definition code_db :: "code_record \<Rightarrow> string db" where
  "code_db rec = db_set_code (k_code (c_code rec)) rec empty_db"


section \<open>Properties of the store operations\<close>

text \<open>
  C9. After \<open>save_history\<close> the stored history starts with the new payload, continues with
  the first at most 24 entries of the previous history in their order, and has at most 25
  entries, whatever the previous history was.
\<close>

theorem save_history_bounded:
  "get_history email (save_history email payload d)
     = payload # take 24 (get_history email d)
   \<and> length (get_history email (save_history email payload d)) \<le> 25
   \<and> hd (get_history email (save_history email payload d)) = payload
   \<and> users (save_history email payload d) = users d
   \<and> codes (save_history email payload d) = codes d
   \<and> cache (save_history email payload d) = cache d"
  by (simp add: get_history_def save_history_def db_set_history_def Let_def
        split: option.split)

text \<open>
  C4. With a stored record of \<open>c\<close> credits, \<open>decrement_credit\<close> stores
  \<open>max 0 (c - 1)\<close> in that record (changing nothing else) and returns it; without a record it
  stores a new one, made with the default credits and then decremented, and returns
  \<open>max 0 (DEFAULT_FREE_CREDITS - 1)\<close>. The returned and stored balance is never negative.
\<close>

theorem decrement_credit_floor:
  "(users d (k_user email) = Some rec \<longrightarrow>
      decrement_credit lib t1 t2 email d
        = (max 0 (u_credits rec - 1),
           d\<lparr>users := (users d)(k_user email \<mapsto> rec\<lparr>u_credits := max 0 (u_credits rec - 1)\<rparr>)\<rparr>))
   \<and> (users d (k_user email) = None \<longrightarrow>
      decrement_credit lib t1 t2 email d
        = (max 0 (DEFAULT_FREE_CREDITS - 1),
           d\<lparr>users := (users d)(k_user email \<mapsto>
                \<lparr>u_email = lower email, u_credits = max 0 (DEFAULT_FREE_CREDITS - 1),
                 u_tier = ''general'', u_created_at = to_iso lib t1,
                 u_last_login = to_iso lib t2\<rparr>)\<rparr>))
   \<and> 0 \<le> fst (decrement_credit lib t1 t2 email d)
   \<and> (\<exists>r. users (snd (decrement_credit lib t1 t2 email d)) (k_user email) = Some r
            \<and> u_credits r = fst (decrement_credit lib t1 t2 email d))"
  by (cases "users d (k_user email)")
     (simp_all add: decrement_credit_def db_set_user_def Let_def)

theorem decrement_credit_floor_witness:
  "users example_db (k_user ''Ann@Example.com '') = Some example_user
   \<and> fst (decrement_credit example_lib example_now example_now ''Ann@Example.com '' example_db) = 0
   \<and> users empty_db (k_user ''Ann@Example.com '') = None
   \<and> fst (decrement_credit example_lib example_now example_now ''Ann@Example.com '' empty_db) = 1"
  using decrement_credit_floor [of example_db "''Ann@Example.com ''" example_user example_lib
          example_now example_now]
        decrement_credit_floor [of empty_db "''Ann@Example.com ''" example_user example_lib
          example_now example_now]
  by (simp add: example_db_def empty_db_def db_set_user_def example_user_def
        DEFAULT_FREE_CREDITS_def)

text \<open>
  C6. For an email that has a record, \<open>ensure_user\<close> rewrites only \<open>last_login\<close>, and
  \<open>tier\<close> when the stored tier is empty and the argument is not; credits, email and
  creation time stay, no other entry changes, and the returned record is the stored one.
\<close>

theorem ensure_user_existing:
  assumes "users d (k_user email) = Some rec"
  shows "\<exists>rec'. ensure_user lib t email tier d
                   = (Inr rec', d\<lparr>users := (users d)(k_user email \<mapsto> rec')\<rparr>)
           \<and> users (snd (ensure_user lib t email tier d)) (k_user email) = Some rec'
           \<and> rec' = rec\<lparr>u_last_login := to_iso lib t,
                        u_tier := (if tier \<noteq> [] \<and> u_tier rec = [] then tier else u_tier rec)\<rparr>
           \<and> u_credits rec' = u_credits rec
           \<and> u_email rec' = u_email rec
           \<and> u_created_at rec' = u_created_at rec"
  using assms by (simp add: ensure_user_def db_set_user_def Let_def)

theorem ensure_user_existing_witness:
  "users example_db (k_user ''Ann@Example.com '') = Some example_user
   \<and> ensure_user example_lib example_now ''Ann@Example.com '' ''general'' example_db
       = (Inr (example_user\<lparr>u_last_login := to_iso example_lib example_now\<rparr>),
          example_db\<lparr>users := (users example_db)(k_user ''Ann@Example.com '' \<mapsto>
             example_user\<lparr>u_last_login := to_iso example_lib example_now\<rparr>)\<rparr>)"
  using ensure_user_existing [of example_db "''Ann@Example.com ''" example_user example_lib
          example_now "''general''"]
  by (simp add: example_db_def empty_db_def db_set_user_def example_user_def)

text \<open>
  C1. A user has a record with \<open>c \<ge> 1\<close> credits, submits a complete form and the brief
  is not cached. When the API call raises an exception that the handler catches, the page
  reports the failure and the stored balance is \<open>c\<close> again. When the call leaves through
  \<open>st.stop()\<close> (the API key is missing), no handler runs: the credit taken before the
  call is not given back and the stored balance is \<open>c - 1\<close>.
\<close>

theorem failed_run_balance:
  assumes "users d (k_user email) = Some rec" and "1 \<le> u_credits rec"
      and "f_run form"
      and "\<not> list_ex (\<lambda>x. strip x = [])
               [f_company form, f_website form, f_persona form, f_value_prop form]"
      and "cache d (cache_key_of lib (t_week clk) form) = None"
  shows "(\<exists>d' rec'. render_agent lib clk (ApiRaises msg) email tier form d
                         = (AgentFailed msg, d')
            \<and> users d' (k_user email) = Some rec'
            \<and> u_credits rec' = u_credits rec)
         \<and> (\<exists>d' rec'. render_agent lib clk ApiStops email tier form d = (ScriptStopped, d')
            \<and> users d' (k_user email) = Some rec'
            \<and> u_credits rec' = u_credits rec - 1)"
  using assms
  by (simp add: render_agent_def ensure_user_def decrement_credit_def update_user_credits_def
        db_set_user_def Let_def)

theorem failed_run_balance_witness:
  "users example_db (k_user ''Ann@Example.com '') = Some example_user
   \<and> u_credits example_user = 1
   \<and> fst (render_agent example_lib example_clock (ApiRaises ''timeout'') ''Ann@Example.com ''
            ''vip'' example_form example_db) = AgentFailed ''timeout''
   \<and> map_option u_credits
        (users (snd (render_agent example_lib example_clock (ApiRaises ''timeout'')
                       ''Ann@Example.com '' ''vip'' example_form example_db))
           (k_user ''Ann@Example.com '')) = Some 1
   \<and> fst (render_agent example_lib example_clock ApiStops ''Ann@Example.com ''
            ''vip'' example_form example_db) = ScriptStopped
   \<and> map_option u_credits
        (users (snd (render_agent example_lib example_clock ApiStops
                       ''Ann@Example.com '' ''vip'' example_form example_db))
           (k_user ''Ann@Example.com '')) = Some 0"
proof -
  have h1: "users example_db (k_user ''Ann@Example.com '') = Some example_user"
    by (simp add: example_db_def db_set_user_def)
  have h2: "1 \<le> u_credits example_user" by (simp add: example_user_def)
  have h3: "f_run example_form" by (simp add: example_form_def)
  have h4: "\<not> list_ex (\<lambda>x. strip x = [])
               [f_company example_form, f_website example_form, f_persona example_form,
                f_value_prop example_form]"
    by code_simp
  have h5: "cache example_db (cache_key_of example_lib (t_week example_clock) example_form) = None"
    by (simp add: example_db_def db_set_user_def empty_db_def)
  note T = failed_run_balance [OF h1 h2 h3 h4 h5, of "''timeout''" "''vip''"]
  from T obtain d1 rec1 where
    "render_agent example_lib example_clock (ApiRaises ''timeout'') ''Ann@Example.com ''
       ''vip'' example_form example_db = (AgentFailed ''timeout'', d1)"
    "users d1 (k_user ''Ann@Example.com '') = Some rec1" "u_credits rec1 = u_credits example_user"
    by blast
  moreover from T obtain d2 rec2 where
    "render_agent example_lib example_clock ApiStops ''Ann@Example.com ''
       ''vip'' example_form example_db = (ScriptStopped, d2)"
    "users d2 (k_user ''Ann@Example.com '') = Some rec2"
    "u_credits rec2 = u_credits example_user - 1"
    by blast
  ultimately show ?thesis using h1 by (simp add: example_user_def)
qed






text \<open>
  C2. \<open>validate_login_code\<close> fails and leaves the store as it is when the code has no
  record, when the record's week differs from the ISO week of the current time, and when the
  record's expiry parses to a time before the current time.
\<close>

theorem validate_rejects_stale_codes:
  "(codes d (k_code (strip code)) = None \<longrightarrow>
      validate_login_code lib dt email code d = (Inl ''Invalid code.'', d))
   \<and> (codes d (k_code (strip code)) = Some rec \<and> c_week_id rec \<noteq> iso_week_id dt \<longrightarrow>
      validate_login_code lib dt email code d
        = (Inl ''Code expired (week changed). Request a new code.'', d))
   \<and> (codes d (k_code (strip code)) = Some rec \<and> parse_iso lib (c_expires_at rec) = Some e
        \<and> dt_lt lib e dt = Inr True \<longrightarrow>
      (\<exists>msg. validate_login_code lib dt email code d = (Inl msg, d)))"
  by (simp add: validate_login_code_def Let_def)

theorem validate_rejects_stale_codes_witness:
  "codes empty_db (k_code (strip '' VIP-2026W02-5K2Y9N '')) = None
   \<and> validate_login_code example_lib example_now ''Ann@Example.com '' '' VIP-2026W02-5K2Y9N ''
        empty_db = (Inl ''Invalid code.'', empty_db)
   \<and> c_week_id (example_code\<lparr>c_week_id := ''2026W01''\<rparr>) \<noteq> iso_week_id example_now
   \<and> validate_login_code example_lib example_now ''Ann@Example.com '' '' VIP-2026W02-5K2Y9N ''
        (code_db (example_code\<lparr>c_week_id := ''2026W01''\<rparr>))
       = (Inl ''Code expired (week changed). Request a new code.'',
          code_db (example_code\<lparr>c_week_id := ''2026W01''\<rparr>))
   \<and> dt_lt example_lib (example_sunday\<lparr>tz := FixedOffset (- 18000000000)\<rparr>) example_later
       = Inr True
   \<and> snd (validate_login_code example_lib example_later ''Ann@Example.com ''
             '' VIP-2026W02-5K2Y9N '' (code_db example_code)) = code_db example_code
   \<and> isl (fst (validate_login_code example_lib example_later ''Ann@Example.com ''
             '' VIP-2026W02-5K2Y9N '' (code_db example_code)))"
proof -
  let ?c = "'' VIP-2026W02-5K2Y9N ''"
  let ?old = "example_code\<lparr>c_week_id := ''2026W01''\<rparr>"
  let ?e = "example_sunday\<lparr>tz := FixedOffset (- 18000000000)\<rparr>"
  have a1: "codes empty_db (k_code (strip ?c)) = None" by (simp add: empty_db_def)
  have b1: "codes (code_db ?old) (k_code (strip ?c)) = Some ?old" by code_simp
  have b2: "c_week_id ?old \<noteq> iso_week_id example_now" by code_simp
  have c1: "codes (code_db example_code) (k_code (strip ?c)) = Some example_code" by code_simp
  have c2: "parse_iso example_lib (c_expires_at example_code) = Some ?e" by code_simp
  have c3: "dt_lt example_lib ?e example_later = Inr True" by code_simp
  have A: "validate_login_code example_lib example_now ''Ann@Example.com '' ?c empty_db
             = (Inl ''Invalid code.'', empty_db)"
    using validate_rejects_stale_codes
            [of empty_db ?c example_lib example_now "''Ann@Example.com ''" example_code ?e] a1
    by blast
  have B: "validate_login_code example_lib example_now ''Ann@Example.com '' ?c (code_db ?old)
             = (Inl ''Code expired (week changed). Request a new code.'', code_db ?old)"
    using validate_rejects_stale_codes
            [of "code_db ?old" ?c example_lib example_now "''Ann@Example.com ''" ?old ?e] b1 b2
    by blast
  obtain msg where C: "validate_login_code example_lib example_later ''Ann@Example.com '' ?c
                         (code_db example_code) = (Inl msg, code_db example_code)"
    using validate_rejects_stale_codes
            [of "code_db example_code" ?c example_lib example_later "''Ann@Example.com ''"
                example_code ?e] c1 c2 c3
    by blast
  show ?thesis using a1 b2 c3 A B C by simp
qed

text \<open>
  C3. For a record of the current week whose expiry parses and is not before the current
  time: an unbound record is bound to the lowercased, stripped login email, stored, and
  returned; a record bound to another email is refused and not changed; a record bound to
  this email is accepted and not changed.
\<close>

theorem validate_binds_on_first_use:
  assumes "codes d (k_code (strip code)) = Some rec"
      and "c_week_id rec = iso_week_id dt"
      and "parse_iso lib (c_expires_at rec) = Some e"
      and "dt_lt lib e dt = Inr False"
  shows "(c_email rec = [] \<longrightarrow>
            validate_login_code lib dt email code d
              = (Inr (rec\<lparr>c_email := strip (lower email)\<rparr>),
                 d\<lparr>codes := (codes d)(k_code (strip code) \<mapsto>
                      rec\<lparr>c_email := strip (lower email)\<rparr>)\<rparr>))
         \<and> (c_email rec \<noteq> [] \<and> c_email rec \<noteq> strip (lower email) \<longrightarrow>
            (\<exists>msg. validate_login_code lib dt email code d = (Inl msg, d)))
         \<and> (c_email rec \<noteq> [] \<and> c_email rec = strip (lower email) \<longrightarrow>
            validate_login_code lib dt email code d = (Inr rec, d))"
  using assms by (simp add: validate_login_code_def db_set_code_def Let_def)

theorem validate_binds_on_first_use_witness:
  "codes (code_db example_code) (k_code (strip '' VIP-2026W02-5K2Y9N '')) = Some example_code
   \<and> c_week_id example_code = iso_week_id example_now
   \<and> dt_lt example_lib (example_sunday\<lparr>tz := FixedOffset (- 18000000000)\<rparr>) example_now
       = Inr False
   \<and> fst (validate_login_code example_lib example_now ''Ann@Example.com ''
             '' VIP-2026W02-5K2Y9N '' (code_db example_code))
       = Inr (example_code\<lparr>c_email := ''ann@example.com''\<rparr>)
   \<and> codes (snd (validate_login_code example_lib example_now ''Ann@Example.com ''
             '' VIP-2026W02-5K2Y9N '' (code_db example_code))) ''code:VIP-2026W02-5K2Y9N''
       = Some (example_code\<lparr>c_email := ''ann@example.com''\<rparr>)
   \<and> validate_login_code example_lib example_now ''Ann@Example.com '' '' VIP-2026W02-5K2Y9N ''
        (code_db (example_code\<lparr>c_email := ''ann@example.com''\<rparr>))
       = (Inr (example_code\<lparr>c_email := ''ann@example.com''\<rparr>),
          code_db (example_code\<lparr>c_email := ''ann@example.com''\<rparr>))
   \<and> snd (validate_login_code example_lib example_now ''Bob@Example.com'' '' VIP-2026W02-5K2Y9N ''
        (code_db (example_code\<lparr>c_email := ''ann@example.com''\<rparr>)))
       = code_db (example_code\<lparr>c_email := ''ann@example.com''\<rparr>)
   \<and> isl (fst (validate_login_code example_lib example_now ''Bob@Example.com''
        '' VIP-2026W02-5K2Y9N '' (code_db (example_code\<lparr>c_email := ''ann@example.com''\<rparr>))))"
proof -
  let ?c = "'' VIP-2026W02-5K2Y9N ''"
  let ?ann = "example_code\<lparr>c_email := ''ann@example.com''\<rparr>"
  let ?e = "example_sunday\<lparr>tz := FixedOffset (- 18000000000)\<rparr>"
  have k: "k_code (strip ?c) = ''code:VIP-2026W02-5K2Y9N''" by code_simp
  have n: "strip (lower ''Ann@Example.com '') = ''ann@example.com''" by code_simp
  have nb: "strip (lower ''Bob@Example.com'') = ''bob@example.com''" by code_simp
  have a1: "codes (code_db example_code) (k_code (strip ?c)) = Some example_code" by code_simp
  have a2: "c_week_id example_code = iso_week_id example_now" by code_simp
  have a3: "parse_iso example_lib (c_expires_at example_code) = Some ?e" by code_simp
  have a4: "dt_lt example_lib ?e example_now = Inr False" by code_simp
  have b1: "codes (code_db ?ann) (k_code (strip ?c)) = Some ?ann" by code_simp
  have b2: "c_week_id ?ann = iso_week_id example_now" by code_simp
  have b3: "parse_iso example_lib (c_expires_at ?ann) = Some ?e" by code_simp
  have e0: "c_email example_code = []" by (simp add: example_code_def)
  have e1: "c_email ?ann \<noteq> []" "c_email ?ann = strip (lower ''Ann@Example.com '')"
    "c_email ?ann \<noteq> strip (lower ''Bob@Example.com'')"
    unfolding n nb by simp_all
  have A: "validate_login_code example_lib example_now ''Ann@Example.com '' ?c
             (code_db example_code)
           = (Inr (example_code\<lparr>c_email := strip (lower ''Ann@Example.com '')\<rparr>),
              (code_db example_code)\<lparr>codes := (codes (code_db example_code))
                 (k_code (strip ?c) \<mapsto>
                    example_code\<lparr>c_email := strip (lower ''Ann@Example.com '')\<rparr>)\<rparr>)"
    using validate_binds_on_first_use [OF a1 a2 a3 a4, of "''Ann@Example.com ''"] e0 by blast
  have B: "validate_login_code example_lib example_now ''Ann@Example.com '' ?c (code_db ?ann)
           = (Inr ?ann, code_db ?ann)"
    using validate_binds_on_first_use [OF b1 b2 b3 a4, of "''Ann@Example.com ''"] e1 by blast
  obtain msg where C: "validate_login_code example_lib example_now ''Bob@Example.com'' ?c
                         (code_db ?ann) = (Inl msg, code_db ?ann)"
    using validate_binds_on_first_use [OF b1 b2 b3 a4, of "''Bob@Example.com''"] e1 by blast
  show ?thesis using a1 a2 a4 A B C unfolding n k by simp
qed

text \<open>
  C7. \<open>post_webhook\<close> always returns a pair: the status code and body text of a
  completed request, and \<open>0\<close> with the exception's text when the request raises.
\<close>

theorem post_webhook_total:
  "post_webhook (\<lambda>u p. Inr r) url payload = (status_code r, text_of r)
   \<and> post_webhook (\<lambda>u p. Inl e) url payload = (0, e)
   \<and> (\<exists>code body. post_webhook requests_post url payload = (code, body)
          \<and> (case requests_post url payload of
                Inr r \<Rightarrow> code = status_code r \<and> body = text_of r
              | Inl e \<Rightarrow> code = 0 \<and> body = e))"
  by (simp add: post_webhook_def split: sum.split)

lemma seed_loop_effect:
  assumes "distinct (map (\<lambda>(code, tier). k_code code) items)"
      and "seed_loop w e c items n d = (n', d')"
  shows "n' = n + length (absent_codes d items)
         \<and> users d' = users d \<and> history d' = history d \<and> cache d' = cache d
         \<and> (\<forall>k. codes d' k = (case codes d k of Some r \<Rightarrow> Some r
                                | None \<Rightarrow> seed_records w e c items k))"
  using assms
proof (induction items arbitrary: n d)
  case Nil
  then show ?case by (simp add: absent_codes_def seed_records_def split: option.split)
next
  case (Cons item items)
  obtain code tier where item: "item = (code, tier)" by (cases item) auto
  let ?key = "k_code code"
  let ?rec = "\<lparr>c_code = code, c_email = [], c_tier = tier, c_week_id = w,
               c_expires_at = e, c_created_at = c\<rparr>"
  have dist: "distinct (map (\<lambda>(code, tier). k_code code) items)"
    and fresh: "?key \<notin> set (map (\<lambda>(code, tier). k_code code) items)"
    using Cons.prems(1) item by simp_all
  show ?case
  proof (cases "codes d ?key")
    case (Some r)
    then have run: "seed_loop w e c items n d = (n', d')"
      using Cons.prems(2) item by simp
    note IH = Cons.IH [OF dist run]
    have "absent_codes d (item # items) = absent_codes d items"
      using Some item by (simp add: absent_codes_def)
    moreover have "\<And>k. codes d k = None \<Longrightarrow>
        seed_records w e c (item # items) k = seed_records w e c items k"
      using Some item by (auto simp add: seed_records_def)
    ultimately show ?thesis using IH by (auto split: option.splits)
  next
    case None
    let ?d1 = "db_set_code ?key ?rec d"
    have run: "seed_loop w e c items (n + 1) ?d1 = (n', d')"
      using Cons.prems(2) item None by (simp add: Let_def)
    note IH = Cons.IH [OF dist run]
    have ne: "k_code a \<noteq> ?key" if "(a, b) \<in> set items" for a b
    proof
      assume "k_code a = ?key"
      then have "?key \<in> (\<lambda>(code, tier). k_code code) ` set items"
        using that by force
      with fresh show False by simp
    qed
    have same: "absent_codes ?d1 items = absent_codes d items"
      unfolding absent_codes_def
      by (rule filter_cong) (use ne in \<open>auto simp add: db_set_code_def\<close>)
    have len: "length (absent_codes d (item # items)) = 1 + length (absent_codes d items)"
      using None item by (simp add: absent_codes_def)
    have frame: "users ?d1 = users d" "history ?d1 = history d" "cache ?d1 = cache d"
      by (simp_all add: db_set_code_def)
    have codes1: "\<And>k. codes ?d1 k = (if k = ?key then Some ?rec else codes d k)"
      by (simp add: db_set_code_def)
    have recs: "\<And>k. seed_records w e c (item # items) k
                  = (if k = ?key then Some ?rec else seed_records w e c items k)"
      using item by (simp add: seed_records_def)
    show ?thesis
      using IH same len frame None by (auto simp add: codes1 recs split: option.splits)
  qed
qed

lemma seed_keys_distinct: "distinct (map (\<lambda>(code, tier). k_code code) SEED_CODES)"
  by code_simp

lemma seed_loop_noop:
  "absent_codes d items = [] \<Longrightarrow> seed_loop w e c items n d = (n, d)"
proof (induction items)
  case Nil
  show ?case by simp
next
  case (Cons item items)
  obtain code tier where item: "item = (code, tier)" by (cases item) auto
  from Cons.prems item have p: "codes d (k_code code) \<noteq> None" "absent_codes d items = []"
    by (auto simp add: absent_codes_def split: if_splits)
  show ?case using item p Cons.IH by simp
qed

lemma seed_records_present:
  "(code, tier) \<in> set items \<Longrightarrow> seed_records w e c items (k_code code) \<noteq> None"
  unfolding seed_records_def by (induction items) auto

text \<open>
  C10. \<open>seed_demo_codes_if_missing\<close> keeps every code record that is already stored and
  touches nothing but code records. When the expiry of the week can be computed, it returns
  the number of seed codes that had no record, with the week id and expiry of the run, and
  gives exactly those codes an unbound record of that week; a run right after it, at any
  time, leaves the store as it is and creates no record.
\<close>

theorem seed_demo_codes_idempotent:
  assumes "seed_demo_codes_if_missing lib dt d = (res, d_new)"
  shows "(\<forall>k r. codes d k = Some r \<longrightarrow> codes d_new k = Some r)
         \<and> users d_new = users d \<and> history d_new = history d \<and> cache d_new = cache d
         \<and> (week_expiry_sunday_235959 dt = Inr expires \<longrightarrow>
              res = Inr (length (absent_codes d SEED_CODES), iso_week_id dt, to_iso lib expires)
              \<and> (\<forall>k. codes d k = None \<longrightarrow>
                     codes d_new k = seed_records (iso_week_id dt) (to_iso lib expires)
                                    (to_iso lib dt) SEED_CODES k)
              \<and> snd (seed_demo_codes_if_missing lib dt_next d_new) = d_new
              \<and> (week_expiry_sunday_235959 dt_next = Inr expires_next \<longrightarrow>
                    fst (seed_demo_codes_if_missing lib dt_next d_new)
                      = Inr (0, iso_week_id dt_next, to_iso lib expires_next)))"
proof (cases "week_expiry_sunday_235959 dt")
  case (Inl err)
  then have "d_new = d" using assms by (simp add: seed_demo_codes_if_missing_def)
  then show ?thesis using Inl by simp
next
  case (Inr ex)
  obtain n' d' where loop:
    "seed_loop (iso_week_id dt) (to_iso lib ex) (to_iso lib dt) SEED_CODES 0 d = (n', d')"
    by (cases "seed_loop (iso_week_id dt) (to_iso lib ex) (to_iso lib dt) SEED_CODES 0 d") auto
  have res: "res = Inr (n', iso_week_id dt, to_iso lib ex)" and d_new: "d_new = d'"
    using assms Inr loop by (simp_all add: seed_demo_codes_if_missing_def)
  note eff = seed_loop_effect [OF seed_keys_distinct loop]
  have cnt: "n' = length (absent_codes d SEED_CODES)" using eff by simp
  have frame: "users d_new = users d" "history d_new = history d" "cache d_new = cache d"
    using eff d_new by simp_all
  have codes1: "codes d_new k = (case codes d k of Some r \<Rightarrow> Some r
        | None \<Rightarrow> seed_records (iso_week_id dt) (to_iso lib ex) (to_iso lib dt) SEED_CODES k)"
    for k using eff d_new by simp
  have keep: "\<forall>k r. codes d k = Some r \<longrightarrow> codes d_new k = Some r"
    by (simp add: codes1)
  have new: "\<forall>k. codes d k = None \<longrightarrow>
      codes d_new k = seed_records (iso_week_id dt) (to_iso lib ex) (to_iso lib dt) SEED_CODES k"
    by (simp add: codes1)
  have "codes d_new (k_code code) \<noteq> None" if "(code, tier) \<in> set SEED_CODES" for code tier
    using seed_records_present [OF that, of "iso_week_id dt" "to_iso lib ex" "to_iso lib dt"]
    by (simp add: codes1 split: option.split)
  then have none: "absent_codes d_new SEED_CODES = []"
    unfolding absent_codes_def by (auto simp add: filter_empty_conv)
  have again: "seed_loop w e c SEED_CODES 0 d_new = (0, d_new)" for w e c
    using none by (rule seed_loop_noop)
  have snd2: "snd (seed_demo_codes_if_missing lib dt_next d_new) = d_new"
    by (cases "week_expiry_sunday_235959 dt_next")
       (simp_all add: seed_demo_codes_if_missing_def again)
  have fst2: "week_expiry_sunday_235959 dt_next = Inr expires_next \<longrightarrow>
                fst (seed_demo_codes_if_missing lib dt_next d_new)
                  = Inr (0, iso_week_id dt_next, to_iso lib expires_next)"
    by (simp add: seed_demo_codes_if_missing_def again)
  show ?thesis using keep frame res cnt new snd2 fst2 Inr by simp
qed

theorem seed_demo_codes_idempotent_witness:
  "week_expiry_sunday_235959 example_now = Inr example_sunday
   \<and> fst (seed_demo_codes_if_missing example_lib example_now (code_db example_code))
       = Inr (8, ''2026W02'', ''739627T23:59:59.0'')
   \<and> codes (snd (seed_demo_codes_if_missing example_lib example_now (code_db example_code)))
         (k_code ''VIP-2026W02-5K2Y9N'') = Some example_code
   \<and> week_expiry_sunday_235959 example_later = Inr (example_sunday\<lparr>ordinal := 739634\<rparr>)
   \<and> seed_demo_codes_if_missing example_lib example_later
        (snd (seed_demo_codes_if_missing example_lib example_now (code_db example_code)))
       = (Inr (0, ''2026W03'', ''739634T23:59:59.0''),
          snd (seed_demo_codes_if_missing example_lib example_now (code_db example_code)))"
proof -
  let ?d = "code_db example_code"
  let ?late = "example_sunday\<lparr>ordinal := 739634\<rparr>"
  have h1: "week_expiry_sunday_235959 example_now = Inr example_sunday" by code_simp
  have h2: "week_expiry_sunday_235959 example_later = Inr ?late" by code_simp
  have k: "codes ?d (k_code ''VIP-2026W02-5K2Y9N'') = Some example_code" by code_simp
  have cnt: "length (absent_codes ?d SEED_CODES) = 8" by code_simp
  have w1: "iso_week_id example_now = ''2026W02''" by code_simp
  have w2: "iso_week_id example_later = ''2026W03''" by code_simp
  have s1: "to_iso example_lib example_sunday = ''739627T23:59:59.0''" by code_simp
  have s2: "to_iso example_lib ?late = ''739634T23:59:59.0''" by code_simp
  let ?d1 = "snd (seed_demo_codes_if_missing example_lib example_now ?d)"
  note T = seed_demo_codes_idempotent
             [where lib = example_lib and dt = example_now and d = ?d
                and expires = example_sunday and dt_next = example_later
                and expires_next = ?late,
              OF surjective_pairing]
  from T have keep: "\<forall>k r. codes ?d k = Some r \<longrightarrow> codes ?d1 k = Some r"
    by (rule conjunct1)
  from T h1 have A: "fst (seed_demo_codes_if_missing example_lib example_now ?d)
      = Inr (length (absent_codes ?d SEED_CODES), iso_week_id example_now,
             to_iso example_lib example_sunday)"
    by simp
  from keep k have B: "codes ?d1 (k_code ''VIP-2026W02-5K2Y9N'') = Some example_code"
    by simp
  from T h1 have C: "snd (seed_demo_codes_if_missing example_lib example_later ?d1) = ?d1"
    by simp
  from T h1 h2 have D: "fst (seed_demo_codes_if_missing example_lib example_later ?d1)
       = Inr (0, iso_week_id example_later, to_iso example_lib ?late)"
    by simp
  have E: "seed_demo_codes_if_missing example_lib example_later
        (snd (seed_demo_codes_if_missing example_lib example_now ?d))
       = (Inr (0, ''2026W03'', ''739634T23:59:59.0''),
          snd (seed_demo_codes_if_missing example_lib example_now ?d))"
    using C D unfolding w2 s2 by (simp add: prod_eq_iff)
  show ?thesis using h1 h2 A B E unfolding cnt w1 s1 by simp
qed

section \<open>Properties of the calendar and of the weekly expiry\<close>

lemma aligned_le:
  fixes k q r :: int
  assumes "7 * k \<le> 7 * q + r" "r < 7"
  shows "k \<le> q"
proof (rule ccontr)
  assume "\<not> k \<le> q"
  then have "q + 1 \<le> k" by simp
  with assms show False by linarith
qed

lemma monday_form:
  fixes M :: int
  assumes "(M + 6) mod 7 = 0"
  obtains k where "M = 7 * k + 1"
proof -
  define j where "j = (M + 6) div 7"
  have "M + 6 = 7 * j" unfolding j_def using assms by (simp add: mod_eq_0_iff_dvd)
  then have "M = 7 * (j - 1) + 1" by (simp add: algebra_simps)
  then show ?thesis using that by blast
qed

lemma day_form:
  fixes n :: int
  obtains q r where "n = 7 * q + r + 1" "(n - 1) div 7 = q" "0 \<le> r" "r < 7"
proof -
  define q where "q = (n - 1) div 7"
  define r where "r = (n - 1) mod 7"
  have "n - 1 = 7 * q + r" unfolding q_def r_def by simp
  then have n: "n = 7 * q + r + 1" by simp
  have b: "0 \<le> r" "r < 7" unfolding r_def by simp_all
  show ?thesis
  proof (rule that)
    show "n = 7 * q + r + 1" by (rule n)
    show "(n - 1) div 7 = q" by (simp add: q_def)
    show "0 \<le> r" "r < 7" by (rule b)+
  qed
qed

lemma week_le:
  fixes M a b :: int
  assumes "(M + 6) mod 7 = 0" "(a - 1) div 7 = (b - 1) div 7" "M \<le> a"
  shows "M \<le> b"
proof -
  obtain k where k: "M = 7 * k + 1" using assms(1) by (rule monday_form)
  obtain qa ra where ra: "a = 7 * qa + ra + 1" "(a - 1) div 7 = qa" "0 \<le> ra" "ra < 7"
    by (rule day_form)
  obtain qb rb where rb: "b = 7 * qb + rb + 1" "(b - 1) div 7 = qb" "0 \<le> rb" "rb < 7"
    by (rule day_form)
  have q: "qb = qa" using assms(2) ra(2) rb(2) by simp
  have "7 * k \<le> 7 * qa + ra" using k ra(1) assms(3) by simp
  then have "k \<le> qa" using ra(4) by (rule aligned_le)
  then show ?thesis unfolding k rb(1) q using rb(3) by simp
qed

lemma week_lt:
  fixes M a b :: int
  assumes "(M + 6) mod 7 = 0" "(a - 1) div 7 = (b - 1) div 7" "a < M"
  shows "b < M"
proof (rule ccontr)
  assume "\<not> b < M"
  then have "M \<le> b" by simp
  then have "M \<le> a" using week_le [OF assms(1) assms(2) [symmetric]] by simp
  with assms(3) show False by simp
qed

lemma week_div:
  fixes M a b :: int
  assumes "(M + 6) mod 7 = 0" "(a - 1) div 7 = (b - 1) div 7"
  shows "(a - M) div 7 = (b - M) div 7"
proof -
  obtain k where k: "M = 7 * k + 1" using assms(1) by (rule monday_form)
  obtain qa ra where ra: "a = 7 * qa + ra + 1" "(a - 1) div 7 = qa" "0 \<le> ra" "ra < 7"
    by (rule day_form)
  obtain qb rb where rb: "b = 7 * qb + rb + 1" "(b - 1) div 7 = qb" "0 \<le> rb" "rb < 7"
    by (rule day_form)
  have q: "qb = qa" using assms(2) ra(2) rb(2) by simp
  have "a - M = 7 * (qa - k) + ra" unfolding k ra(1) by (simp add: algebra_simps)
  then have A: "(a - M) div 7 = qa - k"
    using ra(3,4) by (rule int_div_pos_eq)
  have "b - M = 7 * (qa - k) + rb" unfolding k rb(1) q by (simp add: algebra_simps)
  then have B: "(b - M) div 7 = qa - k"
    using rb(3,4) by (rule int_div_pos_eq)
  show ?thesis using A B by simp
qed

lemma week_mod:
  fixes M n :: int
  assumes "(M + 6) mod 7 = 0"
  shows "(n - M) mod 7 = (n + 6) mod 7"
proof -
  obtain k where k: "M = 7 * k + 1" using assms(1) by (rule monday_form)
  obtain q r where r: "n = 7 * q + r + 1" "(n - 1) div 7 = q" "0 \<le> r" "r < 7"
    by (rule day_form)
  have "n - M = 7 * (q - k) + r" unfolding k r(1) by (simp add: algebra_simps)
  then have A: "(n - M) mod 7 = r" using r(3,4) by (rule int_mod_pos_eq)
  have "n + 6 = 7 * (q + 1) + r" unfolding r(1) by (simp add: algebra_simps)
  then have B: "(n + 6) mod 7 = r" using r(3,4) by (rule int_mod_pos_eq)
  show ?thesis using A B by simp
qed

lemma sunday_same_week:
  fixes n :: int
  defines "s \<equiv> n + (7 - ((n + 6) mod 7 + 1))"
  shows "(s - 1) div 7 = (n - 1) div 7" and "(s + 6) mod 7 + 1 = 7"
    and "0 \<le> 7 - ((n + 6) mod 7 + 1)" and "7 - ((n + 6) mod 7 + 1) \<le> 6"
proof -
  obtain q r where r: "n = 7 * q + r + 1" "(n - 1) div 7 = q" "0 \<le> r" "r < 7"
    by (rule day_form)
  have "n + 6 = 7 * (q + 1) + r" unfolding r(1) by (simp add: algebra_simps)
  then have m: "(n + 6) mod 7 = r" using r(3,4) by (rule int_mod_pos_eq)
  have s: "s = 7 * q + 7" unfolding s_def m unfolding r(1) by simp
  have "s - 1 = 7 * q + 6" using s by simp
  then have "(s - 1) div 7 = q" by (rule int_div_pos_eq) simp_all
  then show "(s - 1) div 7 = (n - 1) div 7" using r(2) by simp
  have "s + 6 = 7 * (q + 1) + 6" using s by simp
  then have "(s + 6) mod 7 = 6" by (rule int_mod_pos_eq) simp_all
  then show "(s + 6) mod 7 + 1 = 7" by simp
  show "0 \<le> 7 - ((n + 6) mod 7 + 1)" "7 - ((n + 6) mod 7 + 1) \<le> 6" using m r(3,4) by simp_all
qed

lemma w_gap:
  fixes W0 W1 :: int
  assumes "(W0 + 6) mod 7 = 0" "(W1 + 6) mod 7 = 0" "W0 + 359 \<le> W1"
  shows "W0 + 364 \<le> W1"
proof -
  obtain k0 where k0: "W0 = 7 * k0 + 1" using assms(1) by (rule monday_form)
  obtain k1 where k1: "W1 = 7 * k1 + 1" using assms(2) by (rule monday_form)
  have "7 * (k0 + 52) \<le> 7 * k1 + 5" using assms(3) unfolding k0 k1 by simp
  then have "k0 + 52 \<le> k1" by (rule aligned_le) simp
  then show ?thesis unfolding k0 k1 by simp
qed

lemma div_step:
  fixes y k :: int
  assumes "0 < k"
  shows "y div k - (y - 1) div k = (if y mod k = 0 then 1 else 0)"
proof (cases "y mod k = 0")
  case True
  have "y - 1 = k * (y div k - 1) + (k - 1)"
    using True mult_div_mod_eq [of k y] by (simp add: algebra_simps)
  then have "(y - 1) div k = y div k - 1"
    using assms by (intro int_div_pos_eq [where r = "k - 1"]) auto
  with True show ?thesis by simp
next
  case False
  have "0 \<le> y mod k" "y mod k < k" using assms by simp_all
  with False have r: "0 \<le> y mod k - 1" "y mod k - 1 < k" by linarith+
  have "y - 1 = k * (y div k) + (y mod k - 1)"
    using mult_div_mod_eq [of k y] by (simp add: algebra_simps)
  then have "(y - 1) div k = y div k"
    using r by (intro int_div_pos_eq [where r = "y mod k - 1"]) auto
  with False show ?thesis by simp
qed

lemma dby_step:
  "365 \<le> days_before_year (y + 1) - days_before_year y
   \<and> days_before_year (y + 1) - days_before_year y \<le> 366"
proof -
  have m1: "y mod 4 = 0" if "y mod 100 = 0"
  proof -
    have "(100::int) dvd y" using that by (simp add: mod_eq_0_iff_dvd)
    moreover have "(4::int) dvd 100" by simp
    ultimately have "(4::int) dvd y" by (rule dvd_trans [rotated])
    then show ?thesis by (simp add: mod_eq_0_iff_dvd)
  qed
  have m2: "y mod 100 = 0" if "y mod 400 = 0"
  proof -
    have "(400::int) dvd y" using that by (simp add: mod_eq_0_iff_dvd)
    moreover have "(100::int) dvd 400" by simp
    ultimately have "(100::int) dvd y" by (rule dvd_trans [rotated])
    then show ?thesis by (simp add: mod_eq_0_iff_dvd)
  qed
  have e4: "y div 4 = (y - 1) div 4 + (if y mod 4 = 0 then 1 else 0)"
    using div_step [of 4 y] by simp
  have e100: "y div 100 = (y - 1) div 100 + (if y mod 100 = 0 then 1 else 0)"
    using div_step [of 100 y] by simp
  have e400: "y div 400 = (y - 1) div 400 + (if y mod 400 = 0 then 1 else 0)"
    using div_step [of 400 y] by simp
  have "days_before_year (y + 1) - days_before_year y
          = 365 + (y div 4 - (y - 1) div 4) - (y div 100 - (y - 1) div 100)
                + (y div 400 - (y - 1) div 400)"
    unfolding days_before_year_def Let_def by (simp add: algebra_simps)
  also have "\<dots> = 365 + (if y mod 4 = 0 then 1 else 0) - (if y mod 100 = 0 then 1 else 0)
                      + (if y mod 400 = 0 then 1 else 0)"
    using e4 e100 e400 by linarith
  finally show ?thesis using m1 m2 by (simp split: if_splits)
qed

lemma dby_decomp:
  assumes "0 \<le> a" "a \<le> 3" "0 \<le> b" "b \<le> 24" "0 \<le> c" "c \<le> 3"
  shows "days_before_year (400 * q + 100 * a + 4 * b + c + 1)
           = 146097 * q + 36524 * a + 1461 * b + 365 * c"
proof -
  let ?y = "400 * q + 100 * a + 4 * b + c"
  have d4: "?y div 4 = 100 * q + 25 * a + b"
    using assms by (intro int_div_pos_eq [where r = c]) auto
  have d100: "?y div 100 = 4 * q + a"
    using assms by (intro int_div_pos_eq [where r = "4 * b + c"]) auto
  have d400: "?y div 400 = q"
    using assms by (intro int_div_pos_eq [where r = "100 * a + 4 * b + c"]) auto
  show ?thesis
    unfolding days_before_year_def Let_def using d4 d100 d400 by simp
qed

lemma ord2year_bounds:
  "days_before_year (ord2year n) < n \<and> n \<le> days_before_year (ord2year n + 1)"
proof -
  define m where "m = n - 1"
  define q where "q = m div 146097"
  define r1 where "r1 = m mod 146097"
  define a where "a = r1 div 36524"
  define r2 where "r2 = r1 mod 36524"
  define b where "b = r2 div 1461"
  define r3 where "r3 = r2 mod 1461"
  define c where "c = r3 div 365"
  define r4 where "r4 = r3 mod 365"
  have y: "ord2year n = (if c = 4 \<or> a = 4 then q * 400 + 1 + a * 100 + b * 4 + c - 1
                          else q * 400 + 1 + a * 100 + b * 4 + c)"
    unfolding ord2year_def Let_def c_def r3_def b_def r2_def a_def r1_def q_def m_def by simp
  have e1: "m = 146097 * q + r1" and b1: "0 \<le> r1" "r1 < 146097"
    unfolding q_def r1_def by simp_all
  have e2: "r1 = 36524 * a + r2" and b2: "0 \<le> r2" "r2 < 36524"
    unfolding a_def r2_def by simp_all
  have e3: "r2 = 1461 * b + r3" and b3: "0 \<le> r3" "r3 < 1461"
    unfolding b_def r3_def by simp_all
  have e4: "r3 = 365 * c + r4" and b4: "0 \<le> r4" "r4 < 365"
    unfolding c_def r4_def by simp_all
  have ra: "0 \<le> a" "a \<le> 4" using e2 b1 b2 by linarith+
  have rb: "0 \<le> b" "b \<le> 24" using e3 b2 b3 by linarith+
  have rc: "0 \<le> c" "c \<le> 4" using e4 b3 b4 by linarith+
  have n: "n = 146097 * q + 36524 * a + 1461 * b + 365 * c + r4 + 1"
    using e1 e2 e3 e4 m_def by linarith
  consider (A) "a = 4" | (C) "a \<le> 3" "c = 4" | (N) "a \<le> 3" "c \<le> 3"
    using ra rc by linarith
  then show ?thesis
  proof cases
    case A
    then have z: "r2 = 0" "b = 0" "r3 = 0" "c = 0" "r4 = 0"
      using e2 e3 e4 b1 b2 b3 b4 rb rc by linarith+
    have yv: "ord2year n = 400 * q + 100 * 3 + 4 * 24 + 3 + 1"
      using y A z by simp
    have yv1: "ord2year n + 1 = 400 * (q + 1) + 100 * 0 + 4 * 0 + 0 + 1"
      using yv by simp
    have "days_before_year (ord2year n) = 146097 * q + 36524 * 3 + 1461 * 24 + 365 * 3"
      unfolding yv by (rule dby_decomp) simp_all
    moreover have "days_before_year (ord2year n + 1) = 146097 * (q + 1) + 36524 * 0 + 1461 * 0 + 365 * 0"
      unfolding yv1 by (rule dby_decomp) simp_all
    ultimately show ?thesis using n A z by simp
  next
    case C
    then have z: "r4 = 0" using e4 b3 b4 by linarith
    have b23: "b \<le> 23" using e3 e4 C z b2 by linarith
    have yv: "ord2year n = 400 * q + 100 * a + 4 * b + 3 + 1"
      using y C by simp
    have yv1: "ord2year n + 1 = 400 * q + 100 * a + 4 * (b + 1) + 0 + 1"
      using yv by simp
    have "days_before_year (ord2year n) = 146097 * q + 36524 * a + 1461 * b + 365 * 3"
      unfolding yv using ra rb C by (intro dby_decomp) simp_all
    moreover have "days_before_year (ord2year n + 1) = 146097 * q + 36524 * a + 1461 * (b + 1) + 365 * 0"
      unfolding yv1 using ra rb b23 C by (intro dby_decomp) simp_all
    ultimately show ?thesis using n C z by simp
  next
    case N
    have yv: "ord2year n = 400 * q + 100 * a + 4 * b + c + 1"
      using y N by simp
    have d: "days_before_year (ord2year n) = 146097 * q + 36524 * a + 1461 * b + 365 * c"
      unfolding yv using ra rb rc N by (intro dby_decomp) simp_all
    have "365 \<le> days_before_year (ord2year n + 1) - days_before_year (ord2year n)"
      using dby_step [of "ord2year n"] by simp
    then show ?thesis using d n b4 by linarith
  qed
qed

lemma w1m_bounds:
  "days_before_year y - 2 \<le> isoweek1monday y \<and> isoweek1monday y \<le> days_before_year y + 4
   \<and> (isoweek1monday y + 6) mod 7 = 0"
  unfolding isoweek1monday_def ymd2ord_def days_before_month_def Let_def
  by (simp; presburger)

lemma w1m_step: "isoweek1monday y + 364 \<le> isoweek1monday (y + 1)"
proof -
  have g: "isoweek1monday y + 359 \<le> isoweek1monday (y + 1)"
    using w1m_bounds [of y] w1m_bounds [of "y + 1"] dby_step [of y] by linarith
  have m0: "(isoweek1monday y + 6) mod 7 = 0" using w1m_bounds by blast
  have m1: "(isoweek1monday (y + 1) + 6) mod 7 = 0" using w1m_bounds by blast
  show ?thesis using m0 m1 g by (rule w_gap)
qed

lemma w1m_mono: "y \<le> y' \<Longrightarrow> isoweek1monday y \<le> isoweek1monday y'"
proof (induction y' rule: int_ge_induct)
  case base
  show ?case by simp
next
  case (step i)
  then show ?case using w1m_step [of i] by linarith
qed

lemma w1m_unique:
  assumes "isoweek1monday y \<le> n" "n < isoweek1monday (y + 1)"
      and "isoweek1monday y' \<le> n" "n < isoweek1monday (y' + 1)"
  shows "y = y'"
proof (rule ccontr)
  assume "y \<noteq> y'"
  then consider "y + 1 \<le> y'" | "y' + 1 \<le> y" by linarith
  then show False
  proof cases
    case 1
    from w1m_mono [OF this] assms show False by linarith
  next
    case 2
    from w1m_mono [OF this] assms show False by linarith
  qed
qed

lemma isocalendar_char:
  "\<exists>Y. isoweek1monday Y \<le> ordinal dt \<and> ordinal dt < isoweek1monday (Y + 1)
       \<and> isocalendar dt = (Y, (ordinal dt - isoweek1monday Y) div 7 + 1,
                              (ordinal dt - isoweek1monday Y) mod 7 + 1)"
proof -
  define n where "n = ordinal dt"
  define y where "y = ord2year n"
  have yb: "days_before_year y < n" "n \<le> days_before_year (y + 1)"
    using ord2year_bounds [of n] by (simp_all add: y_def)
  note W0 = w1m_bounds [of y] and W1 = w1m_bounds [of "y + 1"] and Wm = w1m_bounds [of "y - 1"]
  note S0 = w1m_step [of y] and S1 = w1m_step [of "y + 1"] and Sm = w1m_step [of "y - 1"]
  note D0 = dby_step [of y] and Dm = dby_step [of "y - 1"]
  consider (before) "n < isoweek1monday y"
    | (after) "isoweek1monday y \<le> n" "isoweek1monday (y + 1) \<le> n"
    | (same) "isoweek1monday y \<le> n" "n < isoweek1monday (y + 1)"
    by linarith
  then show ?thesis
  proof cases
    case before
    then have wk: "(n - isoweek1monday y) div 7 < 0" by simp
    have iso: "isocalendar dt = (y - 1, (n - isoweek1monday (y - 1)) div 7 + 1,
                                 (n - isoweek1monday (y - 1)) mod 7 + 1)"
      using wk unfolding isocalendar_def Let_def n_def [symmetric] y_def [symmetric] by simp
    have "isoweek1monday (y - 1) \<le> n" using Wm Dm yb by simp
    moreover have "n < isoweek1monday (y - 1 + 1)" using before by simp
    ultimately show ?thesis using iso unfolding n_def by blast
  next
    case after
    have "364 \<le> n - isoweek1monday y" using after S0 by linarith
    then have "364 div 7 \<le> (n - isoweek1monday y) div 7" by (intro zdiv_mono1) simp_all
    then have n52: "52 \<le> (n - isoweek1monday y) div 7" by simp
    have iso: "isocalendar dt = (y + 1, 1, (n - isoweek1monday y) mod 7 + 1)"
      using n52 after unfolding isocalendar_def Let_def n_def [symmetric] y_def [symmetric]
      by simp
    have small: "n - isoweek1monday (y + 1) \<le> 2" using W1 yb by linarith
    have w: "(n - isoweek1monday (y + 1)) div 7 + 1 = 1" using small after by simp
    have "(isoweek1monday y + 6) mod 7 = 0" "(isoweek1monday (y + 1) + 6) mod 7 = 0"
      using W0 W1 by blast+
    then have d: "(n - isoweek1monday y) mod 7 = (n - isoweek1monday (y + 1)) mod 7"
      by (simp add: week_mod)
    have "n < isoweek1monday (y + 1 + 1)" using small S1 by (simp add: add.assoc)
    then have hi: "n < isoweek1monday (y + 1 + 1)" .
    have "isocalendar dt = (y + 1, (n - isoweek1monday (y + 1)) div 7 + 1,
                                   (n - isoweek1monday (y + 1)) mod 7 + 1)"
      using iso w d by simp
    then show ?thesis using after(2) hi unfolding n_def by blast
  next
    case same
    have nn: "\<not> (n - isoweek1monday y) div 7 < 0" using same by simp
    have iso: "isocalendar dt = (y, (n - isoweek1monday y) div 7 + 1,
                                 (n - isoweek1monday y) mod 7 + 1)"
      using nn same unfolding isocalendar_def Let_def n_def [symmetric] y_def [symmetric]
      by simp
    show ?thesis using iso same unfolding n_def by blast
  qed
qed

lemma isocalendar_weekday: "snd (snd (isocalendar dt)) = isoweekday dt"
proof -
  obtain Y where Y: "isocalendar dt = (Y, (ordinal dt - isoweek1monday Y) div 7 + 1,
                              (ordinal dt - isoweek1monday Y) mod 7 + 1)"
    using isocalendar_char [of dt] by blast
  have "(isoweek1monday Y + 6) mod 7 = 0" using w1m_bounds by blast
  then have "(ordinal dt - isoweek1monday Y) mod 7 = (ordinal dt + 6) mod 7"
    by (rule week_mod)
  then show ?thesis using Y by (simp add: isoweekday_def)
qed

lemma isocalendar_same_week:
  assumes "(ordinal a - 1) div 7 = (ordinal b - 1) div 7"
  shows "fst (isocalendar a) = fst (isocalendar b)
         \<and> fst (snd (isocalendar a)) = fst (snd (isocalendar b))"
proof -
  obtain Y where Y: "isoweek1monday Y \<le> ordinal a" "ordinal a < isoweek1monday (Y + 1)"
      "isocalendar a = (Y, (ordinal a - isoweek1monday Y) div 7 + 1,
                           (ordinal a - isoweek1monday Y) mod 7 + 1)"
    using isocalendar_char [of a] by blast
  obtain Z where Z: "isoweek1monday Z \<le> ordinal b" "ordinal b < isoweek1monday (Z + 1)"
      "isocalendar b = (Z, (ordinal b - isoweek1monday Z) div 7 + 1,
                           (ordinal b - isoweek1monday Z) mod 7 + 1)"
    using isocalendar_char [of b] by blast
  have m0: "(isoweek1monday Y + 6) mod 7 = 0" and m1: "(isoweek1monday (Y + 1) + 6) mod 7 = 0"
    using w1m_bounds by blast+
  have lo: "isoweek1monday Y \<le> ordinal b" using m0 assms Y(1) by (rule week_le)
  have hi: "ordinal b < isoweek1monday (Y + 1)" using m1 assms Y(2) by (rule week_lt)
  have "Z = Y" using w1m_unique [OF Z(1) Z(2) lo hi] .
  moreover have "(ordinal a - isoweek1monday Y) div 7 = (ordinal b - isoweek1monday Y) div 7"
    using m0 assms by (rule week_div)
  ultimately show ?thesis using Y(3) Z(3) by simp
qed

lemma week_expiry_value:
  assumes "valid_datetime dt" and "ordinal dt + (7 - isoweekday dt) \<le> MAXORDINAL"
  shows "week_expiry_sunday_235959 dt
           = Inr (dt\<lparr>ordinal := ordinal dt + (7 - isoweekday dt), fold := 0, hour := 23,
                     minute := 59, second := 59, microsecond := 0\<rparr>)"
proof -
  have "0 \<le> 7 - isoweekday dt"
    using sunday_same_week(3) [of "ordinal dt"] by (simp add: isoweekday_def)
  then have "0 < ordinal dt + (7 - isoweekday dt)"
    using assms(1) by (simp add: valid_datetime_def)
  then show ?thesis
    using assms(2) by (simp add: week_expiry_sunday_235959_def add_days_def Let_def)
qed

lemma week_expiry_overflow:
  assumes "MAXORDINAL < ordinal dt + (7 - isoweekday dt)"
  shows "week_expiry_sunday_235959 dt = Inl OverflowError"
  using assms by (simp add: week_expiry_sunday_235959_def add_days_def Let_def)

lemma sunday_calendar:
  assumes "ordinal e = ordinal dt + (7 - isoweekday dt)"
  shows "isoweekday e = 7"
    and "fst (isocalendar e) = fst (isocalendar dt)"
    and "fst (snd (isocalendar e)) = fst (snd (isocalendar dt))"
    and "iso_week_id e = iso_week_id dt"
proof -
  have o: "ordinal e = ordinal dt + (7 - ((ordinal dt + 6) mod 7 + 1))"
    using assms by (simp add: isoweekday_def)
  show "isoweekday e = 7"
    unfolding isoweekday_def o using sunday_same_week(2) [of "ordinal dt"] by simp
  have w: "(ordinal e - 1) div 7 = (ordinal dt - 1) div 7"
    unfolding o using sunday_same_week(1) [of "ordinal dt"] by simp
  from isocalendar_same_week [OF w]
  show y: "fst (isocalendar e) = fst (isocalendar dt)"
    and k: "fst (snd (isocalendar e)) = fst (snd (isocalendar dt))" by simp_all
  show "iso_week_id e = iso_week_id dt"
    using y k by (cases "isocalendar e"; cases "isocalendar dt") (simp add: iso_week_id_def)
qed

lemma expiry_compare:
  assumes "valid_datetime dt" and "tz e = tz dt"
      and "ordinal e = ordinal dt + (7 - isoweekday dt)"
      and "hour e = 23" "minute e = 59" "second e = 59" "microsecond e = 0"
  shows "dt_lt lib e dt = Inr (isoweekday dt = 7 \<and> hour dt = 23 \<and> minute dt = 59
                                \<and> second dt = 59 \<and> 0 < microsecond dt)"
    and "dt_lt lib e (dt\<lparr>microsecond := 0\<rparr>) = Inr False"
proof -
  have d: "0 \<le> 7 - isoweekday dt"
    using sunday_same_week(3) [of "ordinal dt"] by (simp add: isoweekday_def)
  have v: "hour dt \<le> 23" "minute dt \<le> 59" "second dt \<le> 59" "0 \<le> microsecond dt"
    using assms(1) by (simp_all add: valid_datetime_def)
  show "dt_lt lib e dt = Inr (isoweekday dt = 7 \<and> hour dt = 23 \<and> minute dt = 59
                                \<and> second dt = 59 \<and> 0 < microsecond dt)"
    using assms(2-) d v by (auto simp add: dt_lt_def wall_fields_def)
  show "dt_lt lib e (dt\<lparr>microsecond := 0\<rparr>) = Inr False"
    using assms(2-) d v by (auto simp add: dt_lt_def wall_fields_def)
qed

text \<open>
  C5 (as amended). For a datetime whose week ends within the range of the library,
  \<open>week_expiry_sunday_235959\<close> returns the Sunday of the same ISO year and week at
  23:59:59 with zero microseconds, in the same zone. That expiry is never before the
  datetime with its microseconds dropped; it is before the datetime itself exactly in the
  last second of the Sunday, when the microseconds are not zero. A code created at that
  time carries the week id of that week and this expiry. In the last days of year 9999 the
  addition, and with it the creation of a code, raises \<open>OverflowError\<close> and stores nothing.
\<close>

theorem week_expiry_end_of_week:
  assumes "valid_datetime dt"
  shows "if ordinal dt + (7 - isoweekday dt) \<le> MAXORDINAL
         then (\<exists>e rec. week_expiry_sunday_235959 dt = Inr e
                 \<and> valid_datetime e
                 \<and> isoweekday e = 7
                 \<and> isocalendar e = (fst (isocalendar dt), fst (snd (isocalendar dt)), 7)
                 \<and> hour e = 23 \<and> minute e = 59 \<and> second e = 59 \<and> microsecond e = 0
                 \<and> tz e = tz dt
                 \<and> dt_lt lib e (dt\<lparr>microsecond := 0\<rparr>) = Inr False
                 \<and> dt_lt lib e dt
                     = Inr (isoweekday dt = 7 \<and> hour dt = 23 \<and> minute dt = 59
                            \<and> second dt = 59 \<and> 0 < microsecond dt)
                 \<and> create_code_for_email lib dt token email tier d
                     = (Inr rec, db_set_code (k_code (c_code rec)) rec d)
                 \<and> c_week_id rec = iso_week_id dt
                 \<and> c_week_id rec = iso_week_id e
                 \<and> c_expires_at rec = to_iso lib e
                 \<and> c_created_at rec = to_iso lib dt)
         else week_expiry_sunday_235959 dt = Inl OverflowError
              \<and> create_code_for_email lib dt token email tier d = (Inl OverflowError, d)"
proof (cases "ordinal dt + (7 - isoweekday dt) \<le> MAXORDINAL")
  case False
  then have "week_expiry_sunday_235959 dt = Inl OverflowError"
    by (intro week_expiry_overflow) simp
  then show ?thesis using False by (simp add: create_code_for_email_def)
next
  case True
  define e where "e = dt\<lparr>ordinal := ordinal dt + (7 - isoweekday dt), fold := 0, hour := 23,
                        minute := 59, second := 59, microsecond := 0\<rparr>"
  have we: "week_expiry_sunday_235959 dt = Inr e"
    unfolding e_def using assms True by (rule week_expiry_value)
  have f: "ordinal e = ordinal dt + (7 - isoweekday dt)" "tz e = tz dt"
    "hour e = 23" "minute e = 59" "second e = 59" "microsecond e = 0" "fold e = 0"
    by (simp_all add: e_def)
  have pos: "0 \<le> 7 - isoweekday dt"
    using sunday_same_week(3) [of "ordinal dt"] by (simp add: isoweekday_def)
  have ve: "valid_datetime e"
    using assms True pos f by (simp add: valid_datetime_def)
  note cal = sunday_calendar [OF f(1)]
  have triple: "isocalendar e = (fst (isocalendar dt), fst (snd (isocalendar dt)), 7)"
    using cal(1-3) isocalendar_weekday [of e] by (simp add: prod_eq_iff)
  note cmp = expiry_compare [OF assms f(2) f(1) f(3) f(4) f(5) f(6), of lib]
  obtain rec where cc: "create_code_for_email lib dt token email tier d
                          = (Inr rec, db_set_code (k_code (c_code rec)) rec d)"
      and r: "c_week_id rec = iso_week_id dt" "c_expires_at rec = to_iso lib e"
             "c_created_at rec = to_iso lib dt"
    using we by (simp add: create_code_for_email_def Let_def)
  have "week_expiry_sunday_235959 dt = Inr e
         \<and> valid_datetime e \<and> isoweekday e = 7
         \<and> isocalendar e = (fst (isocalendar dt), fst (snd (isocalendar dt)), 7)
         \<and> hour e = 23 \<and> minute e = 59 \<and> second e = 59 \<and> microsecond e = 0
         \<and> tz e = tz dt
         \<and> dt_lt lib e (dt\<lparr>microsecond := 0\<rparr>) = Inr False
         \<and> dt_lt lib e dt
             = Inr (isoweekday dt = 7 \<and> hour dt = 23 \<and> minute dt = 59
                    \<and> second dt = 59 \<and> 0 < microsecond dt)
         \<and> create_code_for_email lib dt token email tier d
             = (Inr rec, db_set_code (k_code (c_code rec)) rec d)
         \<and> c_week_id rec = iso_week_id dt
         \<and> c_week_id rec = iso_week_id e
         \<and> c_expires_at rec = to_iso lib e
         \<and> c_created_at rec = to_iso lib dt"
    using we ve cal triple cmp cc r f by simp
  then show ?thesis using True by (simp only: if_True) blast
qed

theorem week_expiry_before_dt_counterexample:
  "valid_datetime (example_sunday\<lparr>microsecond := 500000\<rparr>)
   \<and> week_expiry_sunday_235959 (example_sunday\<lparr>microsecond := 500000\<rparr>) = Inr example_sunday
   \<and> dt_lt example_lib example_sunday (example_sunday\<lparr>microsecond := 500000\<rparr>) = Inr True"
  by code_simp

theorem week_expiry_end_of_week_witness:
  "valid_datetime example_now
   \<and> week_expiry_sunday_235959 example_now = Inr example_sunday
   \<and> isoweekday example_sunday = 7
   \<and> dt_lt example_lib example_sunday example_now = Inr False
   \<and> valid_datetime (example_now\<lparr>ordinal := MAXORDINAL\<rparr>)
   \<and> week_expiry_sunday_235959 (example_now\<lparr>ordinal := MAXORDINAL\<rparr>) = Inl OverflowError"
proof -
  let ?last = "example_now\<lparr>ordinal := MAXORDINAL\<rparr>"
  have v: "valid_datetime example_now" by code_simp
  have c: "ordinal example_now + (7 - isoweekday example_now) \<le> MAXORDINAL" by code_simp
  have w: "week_expiry_sunday_235959 example_now = Inr example_sunday" by code_simp
  have n: "\<not> (isoweekday example_now = 7 \<and> hour example_now = 23 \<and> minute example_now = 59
               \<and> second example_now = 59 \<and> 0 < microsecond example_now)" by code_simp
  have v2: "valid_datetime ?last" by code_simp
  have c2: "\<not> ordinal ?last + (7 - isoweekday ?last) \<le> MAXORDINAL" by code_simp
  from week_expiry_end_of_week
         [OF v, where lib = example_lib and token = "[]" and email = "[]" and tier = "[]"
            and d = empty_db] c w n
  have A: "isoweekday example_sunday = 7
           \<and> dt_lt example_lib example_sunday example_now = Inr False"
    by auto
  from week_expiry_end_of_week
         [OF v2, where lib = example_lib and token = "[]" and email = "[]" and tier = "[]"
            and d = empty_db] c2
  have B: "week_expiry_sunday_235959 ?last = Inl OverflowError"
    by simp
  show ?thesis using v w A v2 B by simp
qed

end
